theory Spec2Isabelle
  imports Complex_Main "HOL-Library.Sublist"
begin

section \<open>Python values and exceptions\<close>

text \<open>
  The embedding follows \<^verbatim>\<open>Trading_sim.py\<close>. Conventions:
  \<^item> a Python \<^verbatim>\<open>float\<close> is an exact real number and a Python \<^verbatim>\<open>int\<close> an integer:
    rounding, infinities and NaN are outside the model;
  \<^item> an argument that the constructors coerce with \<^verbatim>\<open>int(...)\<close> or \<^verbatim>\<open>float(...)\<close> is a
    \<open>pyval\<close>: \<^verbatim>\<open>None\<close>, an int or a float (numeric text, which \<^verbatim>\<open>int\<close> and
    \<^verbatim>\<open>float\<close> would parse, is outside the model);
  \<^item> a \<^verbatim>\<open>datetime\<close> is its number of microseconds on the UTC time line, so
    \<^verbatim>\<open>timedelta(minutes=5)\<close> is \<open>300000000\<close>;
  \<^item> \<^verbatim>\<open>datetime.now(UTC)\<close> reads the system clock: the value read is a parameter of the
    function that reads it;
  \<^item> a raised exception is the \<open>Inl\<close> of a sum type, a returned value its \<open>Inr\<close>.
\<close>

datatype pyval = PNone | PInt int | PFloat real

text \<open>
  The exceptions that occur. StatisticsError is the exception of the \<^verbatim>\<open>statistics\<close>
  module; it is a subclass of ValueError whose text never starts with
  \<^verbatim>\<open>Couldn't find any trading activity\<close>, so an \<^verbatim>\<open>except ValueError\<close> clause that tests for that
  start treats it as it treats any other exception.
\<close>

datatype error =
    ValueError string
  | TypeError
  | NameError string
  | StatisticsError

type_synonym instant = int

text \<open>\<^verbatim>\<open>int(x)\<close>: \<^verbatim>\<open>None\<close> raises TypeError, a float is truncated towards zero.\<close>

fun py_int :: "pyval \<Rightarrow> error + int" where
  "py_int PNone = Inl TypeError"
| "py_int (PInt i) = Inr i"
| "py_int (PFloat r) = Inr (if 0 \<le> r then \<lfloor>r\<rfloor> else \<lceil>r\<rceil>)"

text \<open>\<^verbatim>\<open>float(x)\<close>: \<^verbatim>\<open>None\<close> raises TypeError.\<close>

fun py_float :: "pyval \<Rightarrow> error + real" where
  "py_float PNone = Inl TypeError"
| "py_float (PInt i) = Inr (real_of_int i)"
| "py_float (PFloat r) = Inr r"

text \<open>\<^verbatim>\<open>str.lower()\<close> on ASCII text: the letters A to Z are mapped, every other character stays.\<close>

definition lower_char :: "char \<Rightarrow> char" where
  "lower_char c =
     (case map_of (zip ''ABCDEFGHIJKLMNOPQRSTUVWXYZ'' ''abcdefghijklmnopqrstuvwxyz'') c of
        Some d \<Rightarrow> d
      | None \<Rightarrow> c)"

definition lower :: "string \<Rightarrow> string" where
  "lower s = map lower_char s"

text \<open>\<^verbatim>\<open>s.startswith(p)\<close>\<close>

definition startswith :: "string \<Rightarrow> string \<Rightarrow> bool" where
  "startswith s p = (take (length p) s = p)"

section \<open>Stock\<close>

text \<open>
  \<^verbatim>\<open>fixed_div\<close> is coerced only for a preferred stock; for every other type the argument
  is stored as it was passed, so the field is a \<open>pyval\<close>.
\<close>

record stock =
  symbol :: string
  stock_typ :: string
  last_div :: int
  fixed_div :: pyval
  par_value :: int

definition mandatory_stock_msg :: string where
  "mandatory_stock_msg = ''Mandatory fields (symbol, type, last_div, par_value) cannot be None!''"

definition fixed_div_msg :: string where
  "fixed_div_msg = ''fixed_div cannot be None for preferred stock!''"

text \<open>
  \<^verbatim>\<open>Stock.__init__\<close>. After the \<^verbatim>\<open>None\<close> check of the four mandatory fields the type is
  lowercased; only the value \<^verbatim>\<open>'preferred'\<close> is looked at, and no other value is rejected.
\<close>

definition Stock_init ::
  "string option \<Rightarrow> string option \<Rightarrow> pyval \<Rightarrow> pyval \<Rightarrow> pyval \<Rightarrow> error + stock" where
  "Stock_init symbol_arg typ_arg last_div_arg fixed_div_arg par_value_arg =
     (case (symbol_arg, typ_arg) of
        (Some sy, Some ty) \<Rightarrow>
          if last_div_arg = PNone \<or> par_value_arg = PNone then Inl (ValueError mandatory_stock_msg)
          else
            let ty' = lower ty in
            (case (if ty' = ''preferred''
                   then (if fixed_div_arg = PNone then Inl (ValueError fixed_div_msg)
                         else map_sum id PInt (py_int fixed_div_arg))
                   else Inr fixed_div_arg) of
               Inl e \<Rightarrow> Inl e
             | Inr fd \<Rightarrow>
                 (case py_int last_div_arg of
                    Inl e \<Rightarrow> Inl e
                  | Inr ld \<Rightarrow>
                      (case py_int par_value_arg of
                         Inl e \<Rightarrow> Inl e
                       | Inr pv \<Rightarrow>
                           Inr \<lparr>symbol = sy, stock_typ = ty', last_div = ld,
                                fixed_div = fd, par_value = pv\<rparr>)))
      | _ \<Rightarrow> Inl (ValueError mandatory_stock_msg))"

section \<open>Trade\<close>

record trade =
  instant :: instant
  stock :: stock
  is_buy :: bool
  qty :: int
  price :: real

definition mandatory_trade_msg :: string where
  "mandatory_trade_msg = ''Mandatory fields (stock, indicator, qty, price) cannot be None!''"

definition positive_msg :: string where
  "positive_msg = ''Price and quantity must be greater than 0''"

text \<open>
  \<^verbatim>\<open>Trade.__init__\<close>; \<open>now\<close> is the value \<^verbatim>\<open>datetime.now(UTC)\<close> returns in its first
  statement. The two coercions come before the \<^verbatim>\<open>None\<close> check.
\<close>

definition Trade_init ::
  "instant \<Rightarrow> stock option \<Rightarrow> string option \<Rightarrow> pyval \<Rightarrow> pyval \<Rightarrow> error + trade" where
  "Trade_init now stock_arg indicator qty_arg price_arg =
     (case py_int qty_arg of
        Inl e \<Rightarrow> Inl e
      | Inr q \<Rightarrow>
          (case py_float price_arg of
             Inl e \<Rightarrow> Inl e
           | Inr p \<Rightarrow>
               (case (stock_arg, indicator) of
                  (Some s, Some ind) \<Rightarrow>
                    if q \<le> 0 \<or> p \<le> 0 then Inl (ValueError positive_msg)
                    else
                      let ind' = lower ind in
                      if ind' \<noteq> ''buy'' \<and> ind' \<noteq> ''sell''
                      then Inl (ValueError (''Invalid buy/sell indicator '' @ ind'))
                      else Inr \<lparr>instant = now, stock = s, is_buy = (ind' = ''buy''),
                                qty = q, price = p\<rparr>
                | _ \<Rightarrow> Inl (ValueError mandatory_trade_msg))))"

text \<open>\<^verbatim>\<open>buy\<close> and \<^verbatim>\<open>sell\<close>\<close>

definition buy :: "instant \<Rightarrow> stock option \<Rightarrow> pyval \<Rightarrow> pyval \<Rightarrow> error + trade" where
  "buy now s q p = Trade_init now s (Some ''buy'') q p"

definition sell :: "instant \<Rightarrow> stock option \<Rightarrow> pyval \<Rightarrow> pyval \<Rightarrow> error + trade" where
  "sell now s q p = Trade_init now s (Some ''sell'') q p"

section \<open>Dividend yield\<close>

text \<open>
  \<^verbatim>\<open>calc_div_yield\<close>. The first branch names \<^verbatim>\<open>valueError\<close>, which is bound nowhere in
  the module: evaluating it raises NameError before any exception object is built.
  In the last branch \<^verbatim>\<open>None * int\<close> raises TypeError.
\<close>

definition calc_div_yield :: "stock \<Rightarrow> real \<Rightarrow> error + real" where
  "calc_div_yield s p =
     (if p \<le> 0 then Inl (NameError ''valueError'')
      else if lower (stock_typ s) = ''common'' then Inr (real_of_int (last_div s) / p)
      else
        (case fixed_div s of
           PNone \<Rightarrow> Inl TypeError
         | PInt n \<Rightarrow> Inr (real_of_int (n * par_value s) / (p * 100))
         | PFloat r \<Rightarrow> Inr (r * real_of_int (par_value s) / (p * 100))))"

section \<open>Volume weighted price\<close>

definition five_minutes :: int where
  "five_minutes = 5 * 60 * 1000000"

text \<open>The loop of \<^verbatim>\<open>calc_volume_weighted_price\<close>, with its two accumulators.\<close>

fun vwp_loop :: "instant \<Rightarrow> stock \<Rightarrow> trade list \<Rightarrow> real \<Rightarrow> int \<Rightarrow> real \<times> int" where
  "vwp_loop cutoff_date s [] weighted_price volume = (weighted_price, volume)"
| "vwp_loop cutoff_date s (t # ts) weighted_price volume =
     (if instant t > cutoff_date \<and> symbol (stock t) = symbol s
      then vwp_loop cutoff_date s ts (weighted_price + price t * real_of_int (qty t)) (volume + qty t)
      else vwp_loop cutoff_date s ts weighted_price volume)"

definition no_activity_prefix :: string where
  "no_activity_prefix = ''Couldn't find any trading activity''"

text \<open>
  \<^verbatim>\<open>calc_volume_weighted_price(stock, trades)\<close>; \<open>now\<close> is the value that
  \<^verbatim>\<open>datetime.now(UTC)\<close> returns in its first statement: the Python function has no such
  parameter.
\<close>

definition calc_volume_weighted_price :: "instant \<Rightarrow> stock \<Rightarrow> trade list \<Rightarrow> error + real" where
  "calc_volume_weighted_price now s trades =
     (let cutoff_date = now - five_minutes;
          (weighted_price, volume) = vwp_loop cutoff_date s trades 0 0
      in if volume = 0
         then Inl (ValueError (''Couldn't find any trading activity for '' @ symbol s @ ''!''))
         else Inr (weighted_price / real_of_int volume))"

section \<open>The all share index\<close>

definition no_activity_any_msg :: string where
  "no_activity_any_msg = ''Couldn't find any trading activity for any stock!''"

text \<open>
  The \<^verbatim>\<open>except ValueError as e\<close> clause of \<^verbatim>\<open>gbce\<close>: an exception is dropped when it is
  a ValueError whose text starts with the prefix; any other one leaves the function.
\<close>

fun swallowed :: "error \<Rightarrow> bool" where
  "swallowed (ValueError msg) = startswith msg no_activity_prefix"
| "swallowed _ = False"

text \<open>
  The loop of \<^verbatim>\<open>gbce\<close> over the values of the dictionary, in insertion order. The call
  made for the \<open>k\<close>-th stock is \<open>vwp k\<close>; \<open>acc\<close> is \<^verbatim>\<open>volume_weighted_prices\<close>.
\<close>

fun gbce_loop ::
  "(nat \<Rightarrow> stock \<Rightarrow> error + real) \<Rightarrow> nat \<Rightarrow> stock list \<Rightarrow> real list \<Rightarrow> error + real list" where
  "gbce_loop vwp k [] acc = Inr acc"
| "gbce_loop vwp k (s # ss) acc =
     (case vwp k s of
        Inr p \<Rightarrow> gbce_loop vwp (Suc k) ss (acc @ [p])
      | Inl e \<Rightarrow> if swallowed e then gbce_loop vwp (Suc k) ss acc else Inl e)"

text \<open>
  \<^verbatim>\<open>statistics.geometric_mean\<close> is a function of the Python standard library, not of the
  module. It is modelled from its documentation: the geometric mean of the data, the
  \<open>n\<close>-th root of the product of the \<open>n\<close> values, and StatisticsError when the data is empty
  or holds a zero or a negative value.
\<close>

definition geometric_mean :: "real list \<Rightarrow> error + real" where
  "geometric_mean data =
     (if data \<noteq> [] \<and> list_all (\<lambda>x. 0 < x) data
      then Inr (root (length data) (prod_list data))
      else Inl StatisticsError)"

text \<open>
  \<^verbatim>\<open>gbce\<close> with its two callees as parameters: \<open>vwp\<close> for the call of
  \<^verbatim>\<open>calc_volume_weighted_price\<close> and \<open>gm\<close> for \<^verbatim>\<open>statistics.geometric_mean\<close>, a function
  of the Python standard library.
\<close>

definition gbce_with ::
  "(real list \<Rightarrow> error + real) \<Rightarrow> (nat \<Rightarrow> stock \<Rightarrow> error + real) \<Rightarrow> (string \<times> stock) list
     \<Rightarrow> error + real" where
  "gbce_with gm vwp stocks =
     (case gbce_loop vwp 0 (map snd stocks) [] of
        Inl e \<Rightarrow> Inl e
      | Inr volume_weighted_prices \<Rightarrow>
          if length volume_weighted_prices = 0 then Inl (ValueError no_activity_any_msg)
          else gm volume_weighted_prices)"

text \<open>
  \<^verbatim>\<open>gbce(stocks, trades)\<close>: the dictionary is the list of its items in insertion order;
  \<open>clock k\<close> is the value the system clock gives to the \<open>k\<close>-th call of
  \<^verbatim>\<open>calc_volume_weighted_price\<close>.
\<close>

definition gbce ::
  "(real list \<Rightarrow> error + real) \<Rightarrow> (nat \<Rightarrow> instant) \<Rightarrow> (string \<times> stock) list \<Rightarrow> trade list
     \<Rightarrow> error + real" where
  "gbce gm clock stocks trades =
     gbce_with gm (\<lambda>k s. calc_volume_weighted_price (clock k) s trades) stocks"

section \<open>Notions used in the statements\<close>

text \<open>The number a value stands for; \<^verbatim>\<open>None\<close> stands for none.\<close>

definition py_num :: "pyval \<Rightarrow> real option" where
  "py_num v = (case v of PNone \<Rightarrow> None | PInt i \<Rightarrow> Some (real_of_int i) | PFloat r \<Rightarrow> Some r)"

text \<open>
  The arguments \<^verbatim>\<open>Stock.__init__\<close> rejects: a mandatory field is \<^verbatim>\<open>None\<close>, or the
  lowercased type is \<^verbatim>\<open>'preferred'\<close> and \<^verbatim>\<open>fixed_div\<close> is \<^verbatim>\<open>None\<close>.
\<close>

definition stock_init_rejects ::
  "string option \<Rightarrow> string option \<Rightarrow> pyval \<Rightarrow> pyval \<Rightarrow> pyval \<Rightarrow> bool" where
  "stock_init_rejects symbol_arg typ_arg last_div_arg fixed_div_arg par_value_arg =
     (symbol_arg = None \<or> typ_arg = None \<or> last_div_arg = PNone \<or> par_value_arg = PNone \<or>
      (case typ_arg of None \<Rightarrow> False
       | Some ty \<Rightarrow> lower ty = ''preferred'' \<and> fixed_div_arg = PNone))"

text \<open>
  The trades \<^verbatim>\<open>calc_volume_weighted_price\<close> counts when the clock reads \<open>now\<close>: those made
  after \<open>now\<close> minus five minutes, for a stock with the symbol of \<open>s\<close>.
\<close>

definition in_window :: "instant \<Rightarrow> stock \<Rightarrow> trade \<Rightarrow> bool" where
  "in_window now s t = (now - five_minutes < instant t \<and> symbol (stock t) = symbol s)"

text \<open>
  For \<^verbatim>\<open>gbce\<close>: the outcomes of the calls made for the stocks in order, the prices among
  them, and the outcomes after which the loop goes on (a price, or a dropped exception).
\<close>

definition attempts :: "(nat \<Rightarrow> stock \<Rightarrow> error + real) \<Rightarrow> (string \<times> stock) list \<Rightarrow> (error + real) list" where
  "attempts vwp stocks = map (\<lambda>(k, s). vwp k s) (enumerate 0 (map snd stocks))"

fun collected :: "(error + real) list \<Rightarrow> real list" where
  "collected [] = []"
| "collected (Inr p # rs) = p # collected rs"
| "collected (Inl e # rs) = collected rs"

text \<open>
  The failure of no trading activity: a ValueError whose text begins with
  \<^verbatim>\<open>Couldn't find any trading activity\<close>. Every other exception is another failure.
\<close>

definition no_trading_activity :: "error \<Rightarrow> bool" where
  "no_trading_activity e =
     (case e of
        ValueError msg \<Rightarrow> prefix ''Couldn't find any trading activity'' msg
      | TypeError \<Rightarrow> False
      | NameError n \<Rightarrow> False
      | StatisticsError \<Rightarrow> False)"

definition tolerated :: "error + real \<Rightarrow> bool" where
  "tolerated r = (case r of Inr p \<Rightarrow> True | Inl e \<Rightarrow> no_trading_activity e)"

text \<open>
  For the value of the index: whether a stock has a trade counted when the clock reads
  \<open>now\<close>, the volume weighted price of the trades counted, and the prices of the stocks
  that have one, in the order of the stocks, the \<open>k\<close>-th stock at the reading \<open>clock k\<close>.
\<close>

definition has_activity :: "instant \<Rightarrow> stock \<Rightarrow> trade list \<Rightarrow> bool" where
  "has_activity now s trades = (filter (in_window now s) trades \<noteq> [])"

definition window_price :: "instant \<Rightarrow> stock \<Rightarrow> trade list \<Rightarrow> real" where
  "window_price now s trades =
     (\<Sum>t\<leftarrow>filter (in_window now s) trades. price t * real_of_int (qty t)) /
     real_of_int (\<Sum>t\<leftarrow>filter (in_window now s) trades. qty t)"

definition active_prices :: "(nat \<Rightarrow> instant) \<Rightarrow> (string \<times> stock) list \<Rightarrow> trade list \<Rightarrow> real list" where
  "active_prices clock stocks trades =
     map (\<lambda>(k, s). window_price (clock k) s trades)
       (filter (\<lambda>(k, s). has_activity (clock k) s trades) (enumerate 0 (map snd stocks)))"

text \<open>
  Data for the examples: the first two stocks of the catalogue of the module, and four
  trades.
\<close>

definition TEA :: stock where
  "TEA = \<lparr>symbol = ''TEA'', stock_typ = ''common'', last_div = 0, fixed_div = PNone,
     par_value = 100\<rparr>"

definition POP :: stock where
  "POP = \<lparr>symbol = ''POP'', stock_typ = ''common'', last_div = 8, fixed_div = PNone,
     par_value = 100\<rparr>"

definition example_trades :: "trade list" where
  "example_trades =
     [\<lparr>instant = 2000, stock = TEA, is_buy = True, qty = 100, price = 10\<rparr>,
      \<lparr>instant = 1000, stock = TEA, is_buy = True, qty = 7, price = 99\<rparr>,
      \<lparr>instant = 2500, stock = POP, is_buy = False, qty = 1, price = 5\<rparr>,
      \<lparr>instant = 3000, stock = TEA, is_buy = False, qty = 50, price = 20\<rparr>]"

definition uniform_trades :: "trade list" where
  "uniform_trades =
     [\<lparr>instant = 2000, stock = TEA, is_buy = True, qty = 10, price = 4\<rparr>,
      \<lparr>instant = 2500, stock = POP, is_buy = False, qty = 10, price = 9\<rparr>]"

section \<open>Evaluation of the string functions\<close>

lemma lower_common [simp]: "lower ''common'' = ''common''"
  by (simp add: lower_def lower_char_def)

lemma lower_preferred [simp]: "lower ''preferred'' = ''preferred''"
  by (simp add: lower_def lower_char_def)

lemma lower_buy [simp]: "lower ''buy'' = ''buy''"
  by (simp add: lower_def lower_char_def)

lemma lower_sell [simp]: "lower ''sell'' = ''sell''"
  by (simp add: lower_def lower_char_def)

lemma lower_not_upper:
  "d \<in> set ''abcdefghijklmnopqrstuvwxyz'' \<Longrightarrow> d \<notin> set ''ABCDEFGHIJKLMNOPQRSTUVWXYZ''"
  by auto

lemma lower_char_idem: "lower_char (lower_char c) = lower_char c"
proof (cases "map_of (zip ''ABCDEFGHIJKLMNOPQRSTUVWXYZ'' ''abcdefghijklmnopqrstuvwxyz'') c")
  case None
  then show ?thesis by (simp add: lower_char_def)
next
  case (Some d)
  then have "(c, d) \<in> set (zip ''ABCDEFGHIJKLMNOPQRSTUVWXYZ'' ''abcdefghijklmnopqrstuvwxyz'')"
    by (rule map_of_SomeD)
  then have "d \<in> set ''abcdefghijklmnopqrstuvwxyz''"
    by (rule set_zip_rightD)
  then have "d \<notin> set ''ABCDEFGHIJKLMNOPQRSTUVWXYZ''"
    by (rule lower_not_upper)
  then have "map_of (zip ''ABCDEFGHIJKLMNOPQRSTUVWXYZ'' ''abcdefghijklmnopqrstuvwxyz'') d = None"
    by (subst map_of_zip_is_None) simp_all
  with Some show ?thesis by (simp add: lower_char_def)
qed

lemma lower_idem: "lower (lower s) = lower s"
  by (simp add: lower_def lower_char_idem)


text \<open>The two example stocks are what the constructor builds from the catalogue entries.\<close>

lemma catalogue_TEA_POP:
  "Stock_init (Some ''TEA'') (Some ''common'') (PInt 0) PNone (PInt 100) = Inr TEA"
  "Stock_init (Some ''POP'') (Some ''common'') (PInt 8) PNone (PInt 100) = Inr POP"
  by (simp_all add: Stock_init_def TEA_def POP_def)

section \<open>Dividend yield: properties\<close>

lemma calc_div_yield_nonpositive:
  "p \<le> 0 \<Longrightarrow> calc_div_yield s p = Inl (NameError ''valueError'')"
  by (simp add: calc_div_yield_def)

text \<open>
  Claim C1. For every security and every price less than or equal to 0 the dividend yield
  is to fail with the validation error \<^verbatim>\<open>'Price must be greater than 0'\<close>. The function
  raises NameError there instead, for the unbound name \<^verbatim>\<open>valueError\<close>: here for the
  stock POP of the catalogue at the price 0.
\<close>

theorem calc_div_yield_price_zero:
  "calc_div_yield \<lparr>symbol = ''POP'', stock_typ = ''common'', last_div = 8, fixed_div = PNone,
      par_value = 100\<rparr> 0 = Inl (NameError ''valueError'')"
  by (simp add: calc_div_yield_def)

lemma Stock_init_typ:
  "Stock_init (Some sy) (Some ty) ld fd pv = Inr s \<Longrightarrow> stock_typ s = lower ty"
  by (auto simp add: Stock_init_def Let_def split: if_splits sum.splits)

lemma Stock_init_preferred:
  "Stock_init (Some sy) (Some ty) ld fd pv = Inr s \<Longrightarrow> lower ty = ''preferred'' \<Longrightarrow>
   \<exists>n. fixed_div s = PInt n \<and> py_int fd = Inr n"
  by (cases fd) (auto simp add: Stock_init_def Let_def split: if_splits sum.splits)

text \<open>
  Claim C2. For a security built by the constructor with a recognised type and a price
  greater than 0: a common stock yields \<open>last_div / price\<close>, a preferred stock yields
  \<open>(fixed_div * par_value) / (price * 100)\<close>, \<open>fixed_div\<close> being the integer the
  constructor stored.
\<close>

theorem calc_div_yield_formula:
  "Stock_init (Some sy) (Some ty) ld fd pv = Inr s \<Longrightarrow> 0 < p \<Longrightarrow>
     (lower ty = ''common'' \<longrightarrow> calc_div_yield s p = Inr (real_of_int (last_div s) / p)) \<and>
     (lower ty = ''preferred'' \<longrightarrow>
        (\<exists>n. fixed_div s = PInt n \<and> py_int fd = Inr n \<and>
             calc_div_yield s p = Inr (real_of_int (n * par_value s) / (p * 100))))"
proof (intro conjI impI)
  assume c: "Stock_init (Some sy) (Some ty) ld fd pv = Inr s" and p: "0 < p"
  {
    assume "lower ty = ''common''"
    with Stock_init_typ [OF c] p show "calc_div_yield s p = Inr (real_of_int (last_div s) / p)"
      by (simp add: calc_div_yield_def)
  }
  {
    assume pr: "lower ty = ''preferred''"
    from Stock_init_preferred [OF c pr]
    obtain n where n: "fixed_div s = PInt n" "py_int fd = Inr n"
      by blast
    have "lower (stock_typ s) = ''preferred''"
      using Stock_init_typ [OF c] pr by simp
    with n p have "calc_div_yield s p = Inr (real_of_int (n * par_value s) / (p * 100))"
      by (simp add: calc_div_yield_def)
    with n show "\<exists>n. fixed_div s = PInt n \<and> py_int fd = Inr n \<and>
             calc_div_yield s p = Inr (real_of_int (n * par_value s) / (p * 100))"
      by blast
  }
qed

text \<open>
  The two examples of the claim: a common stock with a last dividend of 8 at the price 2
  yields 4, and a preferred stock with a fixed dividend of 2 percent and a par value of 100
  at the price 50 yields 0.04.
\<close>

theorem calc_div_yield_formula_witness:
  "Stock_init (Some ''POP'') (Some ''Common'') (PInt 8) PNone (PInt 100)
     = Inr \<lparr>symbol = ''POP'', stock_typ = ''common'', last_div = 8, fixed_div = PNone,
            par_value = 100\<rparr> \<and>
   calc_div_yield \<lparr>symbol = ''POP'', stock_typ = ''common'', last_div = 8, fixed_div = PNone,
      par_value = 100\<rparr> 2 = Inr 4 \<and>
   Stock_init (Some ''GIN'') (Some ''Preferred'') (PInt 8) (PInt 2) (PInt 100)
     = Inr \<lparr>symbol = ''GIN'', stock_typ = ''preferred'', last_div = 8, fixed_div = PInt 2,
            par_value = 100\<rparr> \<and>
   calc_div_yield \<lparr>symbol = ''GIN'', stock_typ = ''preferred'', last_div = 8,
      fixed_div = PInt 2, par_value = 100\<rparr> 50 = Inr (4 / 100)"
proof -
  have pop: "Stock_init (Some ''POP'') (Some ''Common'') (PInt 8) PNone (PInt 100)
     = Inr \<lparr>symbol = ''POP'', stock_typ = ''common'', last_div = 8, fixed_div = PNone,
            par_value = 100\<rparr>"
    by (simp add: Stock_init_def lower_def lower_char_def)
  have gin: "Stock_init (Some ''GIN'') (Some ''Preferred'') (PInt 8) (PInt 2) (PInt 100)
     = Inr \<lparr>symbol = ''GIN'', stock_typ = ''preferred'', last_div = 8, fixed_div = PInt 2,
            par_value = 100\<rparr>"
    by (simp add: Stock_init_def lower_def lower_char_def)
  have two: "(0::real) < 2" and fifty: "(0::real) < 50"
    by simp_all
  have lc: "lower ''Common'' = ''common''" and lp: "lower ''Preferred'' = ''preferred''"
    by (simp_all add: lower_def lower_char_def)
  from calc_div_yield_formula [OF pop two] lc
  have a: "calc_div_yield \<lparr>symbol = ''POP'', stock_typ = ''common'', last_div = 8,
      fixed_div = PNone, par_value = 100\<rparr> 2 = Inr 4"
    by simp
  from calc_div_yield_formula [OF gin fifty] lp
  have b: "calc_div_yield \<lparr>symbol = ''GIN'', stock_typ = ''preferred'', last_div = 8,
      fixed_div = PInt 2, par_value = 100\<rparr> 50 = Inr (4 / 100)"
    by simp
  from pop gin a b show ?thesis
    by blast
qed

lemma Stock_init_other_typ:
  "lower ty \<noteq> ''preferred'' \<Longrightarrow> ld \<noteq> PNone \<Longrightarrow> pv \<noteq> PNone \<Longrightarrow>
   \<exists>l v. py_int ld = Inr l \<and> py_int pv = Inr v \<and>
     Stock_init (Some sy) (Some ty) ld fd pv
       = Inr \<lparr>symbol = sy, stock_typ = lower ty, last_div = l, fixed_div = fd, par_value = v\<rparr>"
  by (cases ld; cases pv) (simp_all add: Stock_init_def)

lemma calc_div_yield_else:
  "0 < p \<Longrightarrow> lower (stock_typ s) \<noteq> ''common'' \<Longrightarrow>
      calc_div_yield s p =
        (case fixed_div s of
           PNone \<Rightarrow> Inl TypeError
         | PInt n \<Rightarrow> Inr (real_of_int (n * par_value s) / (p * 100))
         | PFloat r \<Rightarrow> Inr (r * real_of_int (par_value s) / (p * 100)))"
  by (simp add: calc_div_yield_def)

text \<open>
  Claim C9. \<^verbatim>\<open>calc_div_yield\<close> has no branch for an unknown type: at a price greater than
  0, every stock whose lowercased type is not \<^verbatim>\<open>'common'\<close> goes through the formula
  \<open>(fixed_div * par_value) / (price * 100)\<close>, which raises TypeError when \<^verbatim>\<open>fixed_div\<close>
  is \<^verbatim>\<open>None\<close>. The constructor accepts a type that is neither \<^verbatim>\<open>'common'\<close> nor
  \<^verbatim>\<open>'preferred'\<close> with \<^verbatim>\<open>fixed_div\<close> absent, and for the stock it builds the call raises
  TypeError, not a validation error.
\<close>

theorem calc_div_yield_no_unknown_branch:
  "0 < p \<Longrightarrow>
   (lower (stock_typ s) \<noteq> ''common'' \<longrightarrow>
      calc_div_yield s p =
        (case fixed_div s of
           PNone \<Rightarrow> Inl TypeError
         | PInt n \<Rightarrow> Inr (real_of_int (n * par_value s) / (p * 100))
         | PFloat r \<Rightarrow> Inr (r * real_of_int (par_value s) / (p * 100)))) \<and>
   (lower ty \<noteq> ''common'' \<and> lower ty \<noteq> ''preferred'' \<and> ld \<noteq> PNone \<and> pv \<noteq> PNone \<longrightarrow>
      (\<exists>s'. Stock_init (Some sy) (Some ty) ld PNone pv = Inr s' \<and>
            stock_typ s' = lower ty \<and> fixed_div s' = PNone \<and>
            calc_div_yield s' p = Inl TypeError))"
proof (intro conjI impI)
  assume p: "0 < p"
  {
    assume "lower (stock_typ s) \<noteq> ''common''"
    with p show "calc_div_yield s p =
        (case fixed_div s of
           PNone \<Rightarrow> Inl TypeError
         | PInt n \<Rightarrow> Inr (real_of_int (n * par_value s) / (p * 100))
         | PFloat r \<Rightarrow> Inr (r * real_of_int (par_value s) / (p * 100)))"
      by (rule calc_div_yield_else)
  }
  {
    assume h: "lower ty \<noteq> ''common'' \<and> lower ty \<noteq> ''preferred'' \<and> ld \<noteq> PNone \<and> pv \<noteq> PNone"
    then obtain l v where
      c: "Stock_init (Some sy) (Some ty) ld PNone pv
       = Inr \<lparr>symbol = sy, stock_typ = lower ty, last_div = l, fixed_div = PNone, par_value = v\<rparr>"
      using Stock_init_other_typ [of ty ld pv sy PNone] by blast
    from h have "lower (lower ty) \<noteq> ''common''"
      by (simp add: lower_idem)
    with p have "calc_div_yield \<lparr>symbol = sy, stock_typ = lower ty, last_div = l,
        fixed_div = PNone, par_value = v\<rparr> p = Inl TypeError"
      by (simp add: calc_div_yield_else)
    with c show "\<exists>s'. Stock_init (Some sy) (Some ty) ld PNone pv = Inr s' \<and>
            stock_typ s' = lower ty \<and> fixed_div s' = PNone \<and>
            calc_div_yield s' p = Inl TypeError"
      by simp
  }
qed


theorem calc_div_yield_no_unknown_branch_witness:
  "(0::real) < 3 \<and> lower ''Bond'' \<noteq> ''common'' \<and> lower ''Bond'' \<noteq> ''preferred'' \<and>
   Stock_init (Some ''XYZ'') (Some ''Bond'') (PInt 5) PNone (PInt 100)
     = Inr \<lparr>symbol = ''XYZ'', stock_typ = ''bond'', last_div = 5, fixed_div = PNone,
            par_value = 100\<rparr> \<and>
   calc_div_yield \<lparr>symbol = ''XYZ'', stock_typ = ''bond'', last_div = 5, fixed_div = PNone,
      par_value = 100\<rparr> 3 = Inl TypeError \<and>
   calc_div_yield \<lparr>symbol = ''XYZ'', stock_typ = ''bond'', last_div = 5, fixed_div = PInt 2,
      par_value = 100\<rparr> 3 = Inr (200 / 300)"
proof -
  have three: "(0::real) < 3" by simp
  have lb: "lower ''Bond'' = ''bond''"
    by (simp add: lower_def lower_char_def)
  have lb2: "lower ''bond'' = ''bond''"
    by (simp add: lower_def lower_char_def)
  have c: "Stock_init (Some ''XYZ'') (Some ''Bond'') (PInt 5) PNone (PInt 100)
     = Inr \<lparr>symbol = ''XYZ'', stock_typ = ''bond'', last_div = 5, fixed_div = PNone,
            par_value = 100\<rparr>"
    by (simp add: Stock_init_def lb)
  from calc_div_yield_no_unknown_branch
    [OF three, of "\<lparr>symbol = ''XYZ'', stock_typ = ''bond'', last_div = 5, fixed_div = PInt 2,
      par_value = 100\<rparr>" "''Bond''" "PInt 5" "PInt 100" "''XYZ''"]
  show ?thesis
    by (simp add: lb lb2 c)
qed

section \<open>Construction of a stock: properties\<close>

lemma py_int_cases: "v = PNone \<or> (\<exists>i. py_int v = Inr i)"
  by (cases v) simp_all

lemma Stock_init_rejected:
  "stock_init_rejects sy ty ld fd pv \<Longrightarrow> \<exists>msg. Stock_init sy ty ld fd pv = Inl (ValueError msg)"
  by (cases sy; cases ty) (auto simp add: stock_init_rejects_def Stock_init_def)

lemma Stock_init_accepted:
  "\<not> stock_init_rejects sy ty ld fd pv \<Longrightarrow> \<exists>s. Stock_init sy ty ld fd pv = Inr s"
  using py_int_cases [of ld] py_int_cases [of pv] py_int_cases [of fd]
  by (cases sy; cases ty) (auto simp add: stock_init_rejects_def Stock_init_def Let_def)

text \<open>
  Claim C8, as amended. The construction of a stock raises ValueError exactly when a
  mandatory field (symbol, type, last_div, par_value) is \<^verbatim>\<open>None\<close>, or the lowercased type
  is \<^verbatim>\<open>'preferred'\<close> and \<^verbatim>\<open>fixed_div\<close> is \<^verbatim>\<open>None\<close>; it raises nothing else, and in
  every other case it returns a stock, whatever the type is.
\<close>

theorem Stock_init_fails_iff:
  "((\<exists>msg. Stock_init sy ty ld fd pv = Inl (ValueError msg)) = stock_init_rejects sy ty ld fd pv) \<and>
   ((\<exists>e. Stock_init sy ty ld fd pv = Inl e) = stock_init_rejects sy ty ld fd pv) \<and>
   ((\<exists>s. Stock_init sy ty ld fd pv = Inr s) = (\<not> stock_init_rejects sy ty ld fd pv))"
  using Stock_init_rejected [of sy ty ld fd pv] Stock_init_accepted [of sy ty ld fd pv]
  by (cases "Stock_init sy ty ld fd pv") auto

theorem Stock_init_fails_iff_witness:
  "(\<exists>msg. Stock_init (Some ''GIN'') (Some ''Preferred'') (PInt 8) PNone (PInt 100)
        = Inl (ValueError msg)) \<and>
   (\<exists>s. Stock_init (Some ''TEA'') (Some ''common'') (PInt 0) PNone (PInt 100) = Inr s)"
proof -
  have lp: "lower ''Preferred'' = ''preferred''"
    by (simp add: lower_def lower_char_def)
  have r: "stock_init_rejects (Some ''GIN'') (Some ''Preferred'') (PInt 8) PNone (PInt 100)"
    by (simp add: stock_init_rejects_def lp)
  have a: "\<not> stock_init_rejects (Some ''TEA'') (Some ''common'') (PInt 0) PNone (PInt 100)"
    by (simp add: stock_init_rejects_def)
  from r a Stock_init_fails_iff [of "Some ''GIN''" "Some ''Preferred''" "PInt 8" PNone "PInt 100"]
    Stock_init_fails_iff [of "Some ''TEA''" "Some ''common''" "PInt 0" PNone "PInt 100"]
  show ?thesis
    by blast
qed

text \<open>
  Claim C8, as stated, fails for a type that is neither \<^verbatim>\<open>'common'\<close> nor
  \<^verbatim>\<open>'preferred'\<close>: the constructor stores it and returns the stock.
\<close>

theorem Stock_init_unrecognized_typ_accepted:
  "lower ''bond'' \<noteq> ''common'' \<and> lower ''bond'' \<noteq> ''preferred'' \<and>
   Stock_init (Some ''XYZ'') (Some ''bond'') (PInt 0) PNone (PInt 100)
     = Inr \<lparr>symbol = ''XYZ'', stock_typ = ''bond'', last_div = 0, fixed_div = PNone,
            par_value = 100\<rparr>"
  by (simp add: Stock_init_def lower_def lower_char_def)

section \<open>Construction of a trade: properties\<close>

lemma py_int_nonpos: "py_num v = Some x \<Longrightarrow> x \<le> 0 \<Longrightarrow> \<exists>q. py_int v = Inr q \<and> q \<le> 0"
  by (cases v) (auto simp add: py_num_def)

lemma py_int_num: "py_num v = Some x \<Longrightarrow> \<exists>q. py_int v = Inr q"
  by (cases v) (auto simp add: py_num_def)

lemma py_float_num: "py_num v = Some x \<Longrightarrow> py_float v = Inr x"
  by (cases v) (auto simp add: py_num_def)

text \<open>
  Claim C7. With a number for the quantity and a number for the price, the construction
  of a trade raises ValueError, and so returns no trade, whenever the quantity is at most
  0, or the price is at most 0, or the indicator is not \<^verbatim>\<open>'buy'\<close> or \<^verbatim>\<open>'sell'\<close> once
  lowercased (an absent indicator included).
\<close>

theorem Trade_init_rejects:
  "py_num qty_arg = Some qv \<Longrightarrow> py_num price_arg = Some pv \<Longrightarrow>
   qv \<le> 0 \<or> pv \<le> 0 \<or>
     (case indicator of None \<Rightarrow> True | Some ind \<Rightarrow> lower ind \<noteq> ''buy'' \<and> lower ind \<noteq> ''sell'') \<Longrightarrow>
   \<exists>msg. Trade_init now stock_arg indicator qty_arg price_arg = Inl (ValueError msg)"
proof -
  assume q: "py_num qty_arg = Some qv" and p: "py_num price_arg = Some pv"
    and bad: "qv \<le> 0 \<or> pv \<le> 0 \<or>
     (case indicator of None \<Rightarrow> True | Some ind \<Rightarrow> lower ind \<noteq> ''buy'' \<and> lower ind \<noteq> ''sell'')"
  from py_int_num [OF q] obtain qi where qi: "py_int qty_arg = Inr qi" by blast
  note pf = py_float_num [OF p]
  have q0: "qv \<le> 0 \<Longrightarrow> qi \<le> 0"
    using py_int_nonpos [OF q] qi by auto
  show ?thesis
  proof (cases stock_arg)
    case None
    then show ?thesis by (simp add: Trade_init_def qi pf)
  next
    case (Some s)
    show ?thesis
    proof (cases indicator)
      case None
      then show ?thesis by (simp add: Trade_init_def qi pf Some)
    next
      case ind: (Some i)
      from bad q0 ind show ?thesis
        by (auto simp add: Trade_init_def qi pf Some Let_def)
    qed
  qed
qed

theorem Trade_init_rejects_witness:
  "py_num (PInt 0) = Some 0 \<and> py_num (PFloat (12 / 10)) = Some (12 / 10) \<and>
   (\<exists>msg. Trade_init 0
      (Some \<lparr>symbol = ''TEA'', stock_typ = ''common'', last_div = 0, fixed_div = PNone, par_value = 100\<rparr>)
      (Some ''buy'') (PInt 0) (PFloat (12 / 10)) = Inl (ValueError msg)) \<and>
   (\<exists>msg. Trade_init 0
      (Some \<lparr>symbol = ''TEA'', stock_typ = ''common'', last_div = 0, fixed_div = PNone, par_value = 100\<rparr>)
      (Some ''hold'') (PInt 5) (PFloat (12 / 10)) = Inl (ValueError msg))"
proof -
  have q0: "py_num (PInt 0) = Some 0" and q5: "py_num (PInt 5) = Some 5"
    and p: "py_num (PFloat (12 / 10)) = Some (12 / 10)"
    by (simp_all add: py_num_def)
  have lh: "lower ''hold'' = ''hold''"
    by (simp add: lower_def lower_char_def)
  have b1: "(0::real) \<le> 0 \<or> (12 / 10 :: real) \<le> 0 \<or>
     (case Some ''buy'' of None \<Rightarrow> True | Some ind \<Rightarrow> lower ind \<noteq> ''buy'' \<and> lower ind \<noteq> ''sell'')"
    by simp
  have b2: "(5::real) \<le> 0 \<or> (12 / 10 :: real) \<le> 0 \<or>
     (case Some ''hold'' of None \<Rightarrow> True | Some ind \<Rightarrow> lower ind \<noteq> ''buy'' \<and> lower ind \<noteq> ''sell'')"
    by (simp add: lh)
  from q0 p Trade_init_rejects [OF q0 p b1, of 0
      "Some \<lparr>symbol = ''TEA'', stock_typ = ''common'', last_div = 0, fixed_div = PNone, par_value = 100\<rparr>"]
    Trade_init_rejects [OF q5 p b2, of 0
      "Some \<lparr>symbol = ''TEA'', stock_typ = ''common'', last_div = 0, fixed_div = PNone, par_value = 100\<rparr>"]
  show ?thesis
    by blast
qed

lemma Trade_init_None_TypeError:
  "qty_arg = PNone \<or> price_arg = PNone \<Longrightarrow>
   Trade_init now stock_arg indicator qty_arg price_arg = Inl TypeError"
  by (cases qty_arg) (auto simp add: Trade_init_def)

lemma Trade_init_mandatory_origin:
  assumes m: "Trade_init now stock_arg indicator qty_arg price_arg = Inl (ValueError mandatory_trade_msg)"
  shows "qty_arg \<noteq> PNone \<and> price_arg \<noteq> PNone \<and> (stock_arg = None \<or> indicator = None)"
proof -
  have neq1: "positive_msg \<noteq> mandatory_trade_msg"
    by (simp add: positive_msg_def mandatory_trade_msg_def)
  have neq2: "\<And>x. ''Invalid buy/sell indicator '' @ x \<noteq> mandatory_trade_msg"
    by (simp add: mandatory_trade_msg_def)
  from m neq1 neq2 show ?thesis
    by (cases qty_arg; cases price_arg; cases stock_arg; cases indicator)
       (auto simp add: Trade_init_def Let_def split: if_splits)
qed

text \<open>
  Claim C10. The quantity and the price are coerced before the \<^verbatim>\<open>None\<close> check: when
  either is \<^verbatim>\<open>None\<close> the construction raises TypeError, and when it raises the
  mandatory-fields ValueError neither of them is \<^verbatim>\<open>None\<close>: the stock or the indicator is.
\<close>

theorem Trade_init_None_coercion:
  "(qty_arg = PNone \<or> price_arg = PNone \<longrightarrow>
      Trade_init now stock_arg indicator qty_arg price_arg = Inl TypeError) \<and>
   (Trade_init now stock_arg indicator qty_arg price_arg = Inl (ValueError mandatory_trade_msg) \<longrightarrow>
      qty_arg \<noteq> PNone \<and> price_arg \<noteq> PNone \<and> (stock_arg = None \<or> indicator = None))"
  using Trade_init_None_TypeError [of qty_arg price_arg now stock_arg indicator]
    Trade_init_mandatory_origin [of now stock_arg indicator qty_arg price_arg]
  by blast

theorem Trade_init_None_coercion_witness:
  "Trade_init 0 None None PNone (PFloat 1) = Inl TypeError \<and>
   Trade_init 0 None None (PInt 1) PNone = Inl TypeError \<and>
   Trade_init 0 None (Some ''buy'') (PInt 1) (PFloat 1) = Inl (ValueError mandatory_trade_msg)"
proof -
  have m: "Trade_init 0 None (Some ''buy'') (PInt 1) (PFloat 1) = Inl (ValueError mandatory_trade_msg)"
    by (simp add: Trade_init_def)
  from m Trade_init_None_coercion [of PNone "PFloat 1" 0 None None]
    Trade_init_None_coercion [of "PInt 1" PNone 0 None None]
    Trade_init_None_coercion [of "PInt 1" "PFloat 1" 0 None "Some ''buy''"]
  show ?thesis
    by blast
qed


text \<open>A trade that the constructor returns has a positive quantity and a positive price.\<close>

lemma Trade_init_positive:
  "Trade_init now st ind q p = Inr t \<Longrightarrow> 0 < qty t \<and> 0 < price t"
  by (cases st; cases ind)
     (auto simp add: Trade_init_def Let_def split: sum.splits if_splits)

section \<open>Volume weighted price: properties\<close>

lemma vwp_loop_sums:
  "vwp_loop (now - five_minutes) s ts w v =
     (w + (\<Sum>t\<leftarrow>filter (in_window now s) ts. price t * real_of_int (qty t)),
      v + (\<Sum>t\<leftarrow>filter (in_window now s) ts. qty t))"
  by (induction ts arbitrary: w v) (simp_all add: in_window_def)

lemma sum_qty_pos:
  "\<forall>t\<in>set ts. 0 < qty t \<Longrightarrow> ts \<noteq> [] \<Longrightarrow> 0 < (\<Sum>t\<leftarrow>ts. qty t)"
proof (induction ts)
  case Nil
  then show ?case by simp
next
  case (Cons t ts)
  then show ?case by (cases ts) (auto simp add: add_pos_pos)
qed

lemma calc_vwp_sums:
  "calc_volume_weighted_price now s trades =
     (if (\<Sum>t\<leftarrow>filter (in_window now s) trades. qty t) = 0
      then Inl (ValueError (''Couldn't find any trading activity for '' @ symbol s @ ''!''))
      else Inr ((\<Sum>t\<leftarrow>filter (in_window now s) trades. price t * real_of_int (qty t)) /
                real_of_int (\<Sum>t\<leftarrow>filter (in_window now s) trades. qty t)))"
  by (simp add: calc_volume_weighted_price_def vwp_loop_sums)

lemma example_trades_positive: "\<forall>t\<in>set example_trades. 0 < qty t"
  by (simp add: example_trades_def)

lemma example_window:
  "filter (in_window 300001000 TEA) example_trades =
     [\<lparr>instant = 2000, stock = TEA, is_buy = True, qty = 100, price = 10\<rparr>,
      \<lparr>instant = 3000, stock = TEA, is_buy = False, qty = 50, price = 20\<rparr>]"
  by (simp add: example_trades_def in_window_def five_minutes_def TEA_def POP_def)

text \<open>
  Claim C3. Let \<open>now\<close> be the instant the clock gives to the call, and let every trade of the
  list have a positive quantity, as the constructor ensures. The trades counted are exactly
  those with an instant strictly after \<open>now\<close> minus five minutes (one exactly five minutes old
  is left out) and with the symbol of the stock. If there is none the call raises the
  ValueError that carries the symbol; otherwise it returns the sum of price times quantity
  divided by the sum of the quantities, over the trades counted.
\<close>

theorem calc_volume_weighted_price_window:
  "\<forall>t\<in>set trades. 0 < qty t \<Longrightarrow>
   (\<forall>t\<in>set trades. instant t = now - five_minutes \<longrightarrow> \<not> in_window now s t) \<and>
   calc_volume_weighted_price now s trades =
     (if filter (in_window now s) trades = []
      then Inl (ValueError (''Couldn't find any trading activity for '' @ symbol s @ ''!''))
      else Inr ((\<Sum>t\<leftarrow>filter (in_window now s) trades. price t * real_of_int (qty t)) /
                real_of_int (\<Sum>t\<leftarrow>filter (in_window now s) trades. qty t)))"
proof (intro conjI)
  assume pos: "\<forall>t\<in>set trades. 0 < qty t"
  show "\<forall>t\<in>set trades. instant t = now - five_minutes \<longrightarrow> \<not> in_window now s t"
    by (simp add: in_window_def)
  have "\<forall>t\<in>set (filter (in_window now s) trades). 0 < qty t"
    using pos by simp
  then have "filter (in_window now s) trades \<noteq> [] \<Longrightarrow>
      (\<Sum>t\<leftarrow>filter (in_window now s) trades. qty t) \<noteq> 0"
    using sum_qty_pos [of "filter (in_window now s) trades"] by fastforce
  then show "calc_volume_weighted_price now s trades =
     (if filter (in_window now s) trades = []
      then Inl (ValueError (''Couldn't find any trading activity for '' @ symbol s @ ''!''))
      else Inr ((\<Sum>t\<leftarrow>filter (in_window now s) trades. price t * real_of_int (qty t)) /
                real_of_int (\<Sum>t\<leftarrow>filter (in_window now s) trades. qty t)))"
    by (cases "filter (in_window now s) trades = []") (simp_all add: calc_vwp_sums)
qed

theorem calc_volume_weighted_price_window_witness:
  "list_all (\<lambda>t. 0 < qty t) example_trades \<and>
   \<not> in_window 300001000 TEA \<lparr>instant = 1000, stock = TEA, is_buy = True, qty = 7, price = 99\<rparr> \<and>
   calc_volume_weighted_price 300001000 TEA example_trades = Inr (2000 / 150) \<and>
   calc_volume_weighted_price 300001000 TEA [] = Inl (ValueError ''Couldn't find any trading activity for TEA!'')"
proof -
  have five: "(1000::int) = 300001000 - five_minutes"
    by (simp add: five_minutes_def)
  have mem: "\<lparr>instant = 1000, stock = TEA, is_buy = True, qty = 7, price = 99\<rparr> \<in> set example_trades"
    by (simp add: example_trades_def)
  have emp: "\<forall>t\<in>set ([]::trade list). 0 < qty t"
    by simp
  from calc_volume_weighted_price_window [OF example_trades_positive, of 300001000 TEA]
    calc_volume_weighted_price_window [OF emp, of 300001000 TEA]
    five mem example_trades_positive
  show ?thesis
    by (simp add: example_window list_all_iff) (simp add: TEA_def)
qed

text \<open>
  Claim C4, as amended. The function has no parameter for the current instant: it reads
  the system clock. Its result is determined by the stock, the trades and the instant read,
  and depends on that instant only through the trades of the stock that fall inside the
  window: two calls whose readings put the same trades of the stock inside the window return
  the same result or raise the same exception.
\<close>

theorem calc_volume_weighted_price_clock:
  "\<forall>t\<in>set trades. symbol (stock t) = symbol s \<longrightarrow>
       (now1 - five_minutes < instant t) = (now2 - five_minutes < instant t) \<Longrightarrow>
   calc_volume_weighted_price now1 s trades = calc_volume_weighted_price now2 s trades"
proof -
  assume h: "\<forall>t\<in>set trades. symbol (stock t) = symbol s \<longrightarrow>
       (now1 - five_minutes < instant t) = (now2 - five_minutes < instant t)"
  have "filter (in_window now1 s) trades = filter (in_window now2 s) trades"
    by (rule filter_cong [OF refl]) (use h in \<open>auto simp add: in_window_def\<close>)
  then show ?thesis
    by (simp add: calc_vwp_sums)
qed

theorem calc_volume_weighted_price_clock_witness:
  "list_all (\<lambda>t. (300001000 - five_minutes < instant t) = (300001500 - five_minutes < instant t))
     example_trades \<and>
   calc_volume_weighted_price 300001000 TEA example_trades
     = calc_volume_weighted_price 300001500 TEA example_trades"
proof -
  have h: "\<forall>t\<in>set example_trades. symbol (stock t) = symbol TEA \<longrightarrow>
       (300001000 - five_minutes < instant t) = (300001500 - five_minutes < instant t)"
    by (simp add: example_trades_def five_minutes_def)
  have l: "list_all (\<lambda>t. (300001000 - five_minutes < instant t) = (300001500 - five_minutes < instant t))
     example_trades"
    by (simp add: example_trades_def five_minutes_def)
  from l calc_volume_weighted_price_clock [OF h] show ?thesis
    by blast
qed

text \<open>
  Claim C4, as stated, fails: two calls with the same stock and the same trades, the only
  arguments the function takes, return a price at one reading of the clock and raise
  ValueError at a later one.
\<close>

theorem calc_volume_weighted_price_reads_clock:
  "calc_volume_weighted_price 300001000 TEA example_trades = Inr (2000 / 150) \<and>
   calc_volume_weighted_price 300003000 TEA example_trades
     = Inl (ValueError ''Couldn't find any trading activity for TEA!'')"
  by (simp add: calc_volume_weighted_price_def example_trades_def five_minutes_def TEA_def POP_def)

section \<open>The all share index: properties\<close>

lemma no_activity_swallowed:
  "swallowed (ValueError (''Couldn't find any trading activity for '' @ sy @ ''!''))"
proof -
  have eq: "''Couldn't find any trading activity for '' @ sy @ ''!''
      = no_activity_prefix @ ('' for '' @ sy @ ''!'')"
    by (simp add: no_activity_prefix_def)
  show ?thesis
    unfolding swallowed.simps startswith_def eq by simp
qed

lemma startswith_prefix: "startswith s p = prefix p s"
proof
  assume "startswith s p"
  then have "take (length p) s = p"
    by (simp add: startswith_def)
  then show "prefix p s"
    using take_is_prefix [of "length p" s] by simp
next
  assume "prefix p s"
  then obtain zs where "s = p @ zs"
    by (auto simp add: prefix_def)
  then show "startswith s p"
    by (simp add: startswith_def)
qed

lemma swallowed_iff: "swallowed e = no_trading_activity e"
  by (cases e) (simp_all add: no_trading_activity_def startswith_prefix no_activity_prefix_def)

lemma tolerated_swallowed:
  "tolerated r = (case r of Inr p \<Rightarrow> True | Inl e \<Rightarrow> swallowed e)"
  by (cases r) (simp_all add: tolerated_def swallowed_iff)

lemma calc_vwp_tolerated: "tolerated (calc_volume_weighted_price now s trades)"
  using no_activity_swallowed [of "symbol s"]
  by (simp add: tolerated_swallowed calc_vwp_sums del: swallowed.simps)

lemma gbce_loop_tolerated:
  "\<forall>r\<in>set (map (\<lambda>(k, s). vwp k s) (enumerate k ss)). tolerated r \<Longrightarrow>
   gbce_loop vwp k ss acc = Inr (acc @ collected (map (\<lambda>(k, s). vwp k s) (enumerate k ss)))"
proof (induction ss arbitrary: k acc)
  case Nil
  then show ?case by simp
next
  case (Cons s ss)
  then show ?case
    by (cases "vwp k s") (auto simp add: tolerated_swallowed)
qed

lemma gbce_loop_propagates:
  "i < length ss \<Longrightarrow>
   \<forall>j<i. tolerated (map (\<lambda>(k, s). vwp k s) (enumerate k ss) ! j) \<Longrightarrow>
   map (\<lambda>(k, s). vwp k s) (enumerate k ss) ! i = Inl e \<Longrightarrow> \<not> swallowed e \<Longrightarrow>
   gbce_loop vwp k ss acc = Inl e"
proof (induction ss arbitrary: k i acc)
  case Nil
  then show ?case by simp
next
  case (Cons s ss)
  show ?case
  proof (cases i)
    case 0
    with Cons.prems show ?thesis by simp
  next
    case (Suc i')
    from Cons.prems Suc have t0: "tolerated (vwp k s)"
      by auto
    have rec: "\<And>acc'. gbce_loop vwp (Suc k) ss acc' = Inl e"
    proof (rule Cons.IH [of i'])
      show "i' < length ss" using Cons.prems Suc by simp
      show "\<forall>j<i'. tolerated (map (\<lambda>(k, s). vwp k s) (enumerate (Suc k) ss) ! j)"
      proof (intro allI impI)
        fix j assume "j < i'"
        then have "Suc j < i" using Suc by simp
        with Cons.prems(2) have "tolerated (map (\<lambda>(k, s). vwp k s) (enumerate k (s # ss)) ! Suc j)"
          by blast
        then show "tolerated (map (\<lambda>(k, s). vwp k s) (enumerate (Suc k) ss) ! j)"
          by simp
      qed
      show "map (\<lambda>(k, s). vwp k s) (enumerate (Suc k) ss) ! i' = Inl e"
        using Cons.prems(3) Suc by simp
      show "\<not> swallowed e" by (rule Cons.prems(4))
    qed
    from t0 show ?thesis
      by (cases "vwp k s") (simp_all add: tolerated_swallowed rec)
  qed
qed

text \<open>
  Claim C5. \<^verbatim>\<open>gbce\<close> makes the call for the stocks in order. When every call returns a
  price or fails with no trading activity (a ValueError whose text begins with
  \<^verbatim>\<open>Couldn't find any trading activity\<close>), the stocks that failed are left out: the result
  is the ValueError for any stock when no price was collected, and the geometric mean
  function applied to the prices collected otherwise. When a call raises any other
  exception, a ValueError with another text included, after calls that did not, that
  exception leaves \<^verbatim>\<open>gbce\<close>. With \<^verbatim>\<open>calc_volume_weighted_price\<close> as the callee, every
  outcome is a price or the failure of no trading activity, so the first case always
  applies.
\<close>

theorem gbce_error_handling:
  "((\<forall>r\<in>set (attempts vwp stocks). tolerated r) \<longrightarrow>
      gbce_with gm vwp stocks =
        (if collected (attempts vwp stocks) = [] then Inl (ValueError no_activity_any_msg)
         else gm (collected (attempts vwp stocks)))) \<and>
   (i < length stocks \<and> (\<forall>j<i. tolerated (attempts vwp stocks ! j)) \<and>
    attempts vwp stocks ! i = Inl e \<and> \<not> no_trading_activity e \<longrightarrow>
      gbce_with gm vwp stocks = Inl e) \<and>
   tolerated (calc_volume_weighted_price now s trades) \<and>
   gbce gm clock stocks trades =
     (if collected (attempts (\<lambda>k s. calc_volume_weighted_price (clock k) s trades) stocks) = []
      then Inl (ValueError no_activity_any_msg)
      else gm (collected (attempts (\<lambda>k s. calc_volume_weighted_price (clock k) s trades) stocks)))"
proof -
  have a: "gbce_with gm f stocks =
        (if collected (attempts f stocks) = [] then Inl (ValueError no_activity_any_msg)
         else gm (collected (attempts f stocks)))"
    if "\<forall>r\<in>set (attempts f stocks). tolerated r" for f
    using gbce_loop_tolerated [of f 0 "map snd stocks" "[]"] that
    by (simp add: gbce_with_def attempts_def)
  have b: "gbce_with gm vwp stocks = Inl e"
    if "i < length stocks" "\<forall>j<i. tolerated (attempts vwp stocks ! j)"
      "attempts vwp stocks ! i = Inl e" "\<not> no_trading_activity e"
    using gbce_loop_propagates [of i "map snd stocks" vwp 0 e "[]"] that
    by (simp add: gbce_with_def attempts_def swallowed_iff)
  have c: "\<forall>r\<in>set (attempts (\<lambda>k s. calc_volume_weighted_price (clock k) s trades) stocks). tolerated r"
    by (auto simp add: attempts_def calc_vwp_tolerated)
  show ?thesis
    using a [of vwp] b a [OF c] calc_vwp_tolerated [of now s trades]
    by (simp add: gbce_def)
qed


theorem gbce_error_handling_witness:
  "gbce (\<lambda>ps. Inr (root (length ps) (prod_list ps))) (\<lambda>k. 300001000 + 2000 * int k)
      [(''TEA'', TEA), (''POP'', POP)] example_trades = Inr (2000 / 150) \<and>
   gbce_with (\<lambda>ps. Inr (root (length ps) (prod_list ps)))
      (\<lambda>k s. if k = 0 then Inr 1 else Inl TypeError) [(''TEA'', TEA), (''POP'', POP)]
      = Inl TypeError \<and>
   gbce_with (\<lambda>ps. Inr (root (length ps) (prod_list ps)))
      (\<lambda>k s. if k = 0 then Inl (ValueError ''Couldn't find any trading activity for TEA!'')
             else Inl (ValueError ''some other failure''))
      [(''TEA'', TEA), (''POP'', POP)]
      = Inl (ValueError ''some other failure'') \<and>
   gbce (\<lambda>ps. Inr (root (length ps) (prod_list ps))) (\<lambda>k. 300001000 + 2000 * int k)
      [(''TEA'', TEA), (''POP'', POP)] []
      = Inl (ValueError ''Couldn't find any trading activity for any stock!'')"
proof -
  let ?gm = "\<lambda>ps. Inr (root (length ps) (prod_list ps))"
  let ?stocks = "[(''TEA'', TEA), (''POP'', POP)]"
  let ?clock = "\<lambda>k. 300001000 + 2000 * int k"
  let ?f2 = "\<lambda>(k::nat) (s::stock). if k = 0 then (Inr 1 :: error + real) else Inl TypeError"
  let ?f4 = "\<lambda>(k::nat) (s::stock).
     if k = 0 then (Inl (ValueError ''Couldn't find any trading activity for TEA!'') :: error + real)
     else Inl (ValueError ''some other failure'')"
  have a1: "attempts (\<lambda>k s. calc_volume_weighted_price (?clock k) s example_trades) ?stocks
      = [Inr (2000 / 150), Inl (ValueError ''Couldn't find any trading activity for POP!'')]"
    by (simp add: attempts_def calc_volume_weighted_price_def example_trades_def five_minutes_def
        TEA_def POP_def)
  have a2: "attempts ?f2 ?stocks = [Inr 1, Inl TypeError]"
    by (simp add: attempts_def)
  have a3: "attempts (\<lambda>k s. calc_volume_weighted_price (?clock k) s []) ?stocks
      = [Inl (ValueError ''Couldn't find any trading activity for TEA!''),
         Inl (ValueError ''Couldn't find any trading activity for POP!'')]"
    by (simp add: attempts_def calc_volume_weighted_price_def TEA_def POP_def)
  have a4: "attempts ?f4 ?stocks
      = [Inl (ValueError ''Couldn't find any trading activity for TEA!''),
         Inl (ValueError ''some other failure'')]"
    by (simp add: attempts_def)
  have p1: "gbce ?gm ?clock ?stocks example_trades = Inr (2000 / 150)"
    using gbce_error_handling [where vwp = "?f2" and stocks = "?stocks" and gm = "?gm" and i = 1
        and e = TypeError and now = 0 and s = TEA and trades = example_trades
        and clock = "?clock"]
    by (simp add: a1)
  have p2: "gbce_with ?gm ?f2 ?stocks = Inl TypeError"
    using gbce_error_handling [where vwp = "?f2" and stocks = "?stocks" and gm = "?gm" and i = 1
        and e = TypeError and now = 0 and s = TEA and trades = example_trades
        and clock = "?clock"]
    by (simp add: a2 tolerated_def no_trading_activity_def)
  have p3: "gbce ?gm ?clock ?stocks []
      = Inl (ValueError ''Couldn't find any trading activity for any stock!'')"
    using gbce_error_handling [where vwp = "?f2" and stocks = "?stocks" and gm = "?gm" and i = 1
        and e = TypeError and now = 0 and s = TEA and trades = "[]"
        and clock = "?clock"]
    by (simp add: a3 no_activity_any_msg_def)
  have p4: "gbce_with ?gm ?f4 ?stocks = Inl (ValueError ''some other failure'')"
    using gbce_error_handling [where vwp = "?f4" and stocks = "?stocks" and gm = "?gm" and i = 1
        and e = "ValueError ''some other failure''" and now = 0 and s = TEA
        and trades = example_trades and clock = "?clock", unfolded a4]
    by (simp add: tolerated_def no_trading_activity_def)
  from p1 p2 p3 p4 show ?thesis
    by blast
qed

section \<open>The value of the index\<close>

lemma sum_price_pos:
  "\<forall>t\<in>set ts. 0 < qty t \<and> 0 < price t \<Longrightarrow> ts \<noteq> [] \<Longrightarrow>
   0 < (\<Sum>t\<leftarrow>ts. price t * real_of_int (qty t))"
proof (induction ts)
  case Nil
  then show ?case by simp
next
  case (Cons t ts)
  then show ?case by (cases ts) (auto simp add: add_pos_pos)
qed

lemma calc_vwp_activity:
  assumes "\<forall>t\<in>set trades. 0 < qty t"
  shows "calc_volume_weighted_price now s trades =
     (if has_activity now s trades then Inr (window_price now s trades)
      else Inl (ValueError (''Couldn't find any trading activity for '' @ symbol s @ ''!'')))"
proof -
  have "\<forall>t\<in>set (filter (in_window now s) trades). 0 < qty t"
    using assms by simp
  then have "filter (in_window now s) trades \<noteq> [] \<Longrightarrow>
      (\<Sum>t\<leftarrow>filter (in_window now s) trades. qty t) \<noteq> 0"
    using sum_qty_pos [of "filter (in_window now s) trades"] by fastforce
  then show ?thesis
    by (cases "filter (in_window now s) trades = []")
       (simp_all add: calc_vwp_sums has_activity_def window_price_def)
qed

lemma window_price_pos:
  assumes "\<forall>t\<in>set trades. 0 < qty t \<and> 0 < price t" and "has_activity now s trades"
  shows "0 < window_price now s trades"
proof -
  let ?sel = "filter (in_window now s) trades"
  have all: "\<forall>t\<in>set ?sel. 0 < qty t \<and> 0 < price t"
    using assms(1) by simp
  have ne: "?sel \<noteq> []"
    using assms(2) by (simp add: has_activity_def)
  have "0 < (\<Sum>t\<leftarrow>?sel. price t * real_of_int (qty t))"
    using sum_price_pos [OF all ne] .
  moreover have "0 < (\<Sum>t\<leftarrow>?sel. qty t)"
    using sum_qty_pos [of ?sel] all ne by blast
  ultimately show ?thesis
    by (simp add: window_price_def)
qed

lemma collected_prices:
  assumes "\<forall>t\<in>set trades. 0 < qty t"
  shows "collected (map (\<lambda>(k, s). calc_volume_weighted_price (clock k) s trades) xs) =
     map (\<lambda>(k, s). window_price (clock k) s trades)
       (filter (\<lambda>(k, s). has_activity (clock k) s trades) xs)"
proof (induction xs)
  case Nil
  then show ?case by simp
next
  case (Cons x xs)
  obtain k s where x: "x = (k, s)"
    by (cases x)
  from Cons show ?case
    by (simp add: x calc_vwp_activity [OF assms])
qed

lemma collected_active_prices:
  "\<forall>t\<in>set trades. 0 < qty t \<Longrightarrow>
   collected (attempts (\<lambda>k s. calc_volume_weighted_price (clock k) s trades) stocks)
     = active_prices clock stocks trades"
  by (simp add: attempts_def active_prices_def collected_prices)

lemma active_prices_pos:
  assumes "\<forall>t\<in>set trades. 0 < qty t \<and> 0 < price t"
  shows "list_all (\<lambda>x. 0 < x) (active_prices clock stocks trades)"
  using window_price_pos [OF assms]
  by (auto simp add: active_prices_def list_all_iff)

lemma active_prices_nonempty:
  assumes "k < length stocks" and "has_activity (clock k) (snd (stocks ! k)) trades"
  shows "active_prices clock stocks trades \<noteq> []"
proof -
  have "(k, snd (stocks ! k)) \<in> set (enumerate 0 (map snd stocks))"
    using assms(1) by (simp add: in_set_enumerate_eq)
  with assms(2)
  have "(k, snd (stocks ! k)) \<in>
      set (filter (\<lambda>(k, s). has_activity (clock k) s trades) (enumerate 0 (map snd stocks)))"
    by simp
  then have "filter (\<lambda>(k, s). has_activity (clock k) s trades) (enumerate 0 (map snd stocks)) \<noteq> []"
    by (metis empty_iff list.set(1))
  then show ?thesis
    by (simp add: active_prices_def)
qed

lemma gbce_collected:
  "gbce gm clock stocks trades =
     (if collected (attempts (\<lambda>k s. calc_volume_weighted_price (clock k) s trades) stocks) = []
      then Inl (ValueError no_activity_any_msg)
      else gm (collected (attempts (\<lambda>k s. calc_volume_weighted_price (clock k) s trades) stocks)))"
proof -
  have "\<forall>r\<in>set (map (\<lambda>(k, s). calc_volume_weighted_price (clock k) s trades)
      (enumerate 0 (map snd stocks))). tolerated r"
    by (auto simp add: calc_vwp_tolerated)
  from gbce_loop_tolerated [OF this, of "[]"] show ?thesis
    by (simp add: gbce_def gbce_with_def attempts_def)
qed

text \<open>
  Claim C6. Let every trade have a positive quantity and a positive price, as the
  constructor ensures, and let at least one stock have trading activity at the reading of
  the clock for its call. Then \<^verbatim>\<open>gbce\<close> returns the geometric mean of the prices collected,
  the volume weighted prices of the stocks with activity: the \<open>n\<close>-th root of their product,
  \<open>n\<close> being their number, which is not zero. In exact arithmetic the two agree without
  any difference, so within every tolerance.
\<close>

theorem gbce_geometric_mean:
  "\<forall>t\<in>set trades. 0 < qty t \<and> 0 < price t \<Longrightarrow>
   k < length stocks \<Longrightarrow> has_activity (clock k) (snd (stocks ! k)) trades \<Longrightarrow>
   active_prices clock stocks trades \<noteq> [] \<and>
   gbce geometric_mean clock stocks trades =
     Inr (root (length (active_prices clock stocks trades))
            (prod_list (active_prices clock stocks trades)))"
proof -
  assume pos: "\<forall>t\<in>set trades. 0 < qty t \<and> 0 < price t"
    and k: "k < length stocks" and act: "has_activity (clock k) (snd (stocks ! k)) trades"
  from pos have q: "\<forall>t\<in>set trades. 0 < qty t"
    by blast
  have ne: "active_prices clock stocks trades \<noteq> []"
    using k act by (rule active_prices_nonempty)
  have "gbce geometric_mean clock stocks trades = geometric_mean (active_prices clock stocks trades)"
    using ne by (simp add: gbce_collected collected_active_prices [OF q])
  also have "\<dots> = Inr (root (length (active_prices clock stocks trades))
            (prod_list (active_prices clock stocks trades)))"
    using ne active_prices_pos [OF pos, of clock stocks] by (simp add: geometric_mean_def)
  finally show ?thesis
    using ne by blast
qed

theorem gbce_geometric_mean_witness:
  "list_all (\<lambda>t. 0 < qty t \<and> 0 < price t) uniform_trades \<and>
   has_activity 300001000 TEA uniform_trades \<and>
   active_prices (\<lambda>k. 300001000) [(''TEA'', TEA), (''POP'', POP)] uniform_trades = [4, 9] \<and>
   gbce geometric_mean (\<lambda>k. 300001000) [(''TEA'', TEA), (''POP'', POP)] uniform_trades = Inr 6"
proof -
  let ?stocks = "[(''TEA'', TEA), (''POP'', POP)]"
  have pos: "\<forall>t\<in>set uniform_trades. 0 < qty t \<and> 0 < price t"
    by (simp add: uniform_trades_def)
  have k: "0 < length ?stocks"
    by simp
  have act: "has_activity 300001000 TEA uniform_trades"
    by (simp add: has_activity_def in_window_def uniform_trades_def five_minutes_def TEA_def POP_def)
  have act': "has_activity ((\<lambda>k. 300001000) (0::nat)) (snd (?stocks ! 0)) uniform_trades"
    using act by simp
  have ap: "active_prices (\<lambda>k. 300001000) ?stocks uniform_trades = [4, 9]"
    by (simp add: active_prices_def has_activity_def window_price_def in_window_def
        uniform_trades_def five_minutes_def TEA_def POP_def)
  have r: "root 2 36 = (6::real)"
    by simp
  from gbce_geometric_mean [where clock = "\<lambda>k. 300001000" and k = 0 and stocks = "?stocks",
      OF pos k act'] ap r
  have "gbce geometric_mean (\<lambda>k. 300001000) ?stocks uniform_trades = Inr 6"
    by (simp add: numeral_2_eq_2)
  with pos act ap show ?thesis
    by (simp add: list_all_iff)
qed

end
